theory Spec2Isabelle
  imports Main
begin

section \<open>Python values used by the discovery code\<close>

text \<open>
  Python strings are modelled as \<^typ>\<open>string\<close>. The scanner output handled here is ASCII
  text (dotted addresses, hexadecimal MAC addresses, vendor names), and the string
  operations below are those of Python's \<open>str\<close> on ASCII text: \<open>upper\<close> and \<open>lower\<close>
  change the 26 letters only.

  The values of \<open>exn\<close> are instances of Python's \<open>Exception\<close>: what an
  \<open>except Exception\<close> clause catches. Signals that are not (\<open>KeyboardInterrupt\<close>,
  \<open>SystemExit\<close>, a task cancellation) are outside the model.
\<close>

datatype exn =
    CalledProcessError int
  | FileNotFoundError
  | ImportError
  | TypeError
  | NameError string
  | HError
  | OSError
  | OtherException string

definition TAB :: char where
  "TAB = CHR 0x09"

definition upper_char :: "char \<Rightarrow> char" where
  "upper_char c =
     (case map_of (zip ''abcdefghijklmnopqrstuvwxyz'' ''ABCDEFGHIJKLMNOPQRSTUVWXYZ'') c of
        None \<Rightarrow> c | Some u \<Rightarrow> u)"

definition lower_char :: "char \<Rightarrow> char" where
  "lower_char c =
     (case map_of (zip ''ABCDEFGHIJKLMNOPQRSTUVWXYZ'' ''abcdefghijklmnopqrstuvwxyz'') c of
        None \<Rightarrow> c | Some l \<Rightarrow> l)"

definition upper :: "string \<Rightarrow> string" where
  "upper s = map upper_char s"

definition lower :: "string \<Rightarrow> string" where
  "lower s = map lower_char s"

text \<open>\<open>str.splitlines()\<close>: the line boundaries of Python among the characters below 256;
  a carriage return followed by a line feed is one boundary, and a final boundary opens
  no empty last line.\<close>

definition is_linebreak :: "char \<Rightarrow> bool" where
  "is_linebreak c \<longleftrightarrow>
     c \<in> set [CHR 0x0A, CHR 0x0B, CHR 0x0C, CHR 0x0D, CHR 0x1C, CHR 0x1D, CHR 0x1E, CHR 0x85]"

fun splitlines :: "string \<Rightarrow> string list" where
  "splitlines [] = []"
| "splitlines (c # cs) =
     (if c = CHR 0x0D \<and> cs \<noteq> [] \<and> hd cs = CHR 0x0A then [] # splitlines (tl cs)
      else if is_linebreak c then [] # splitlines cs
      else (case splitlines cs of [] \<Rightarrow> [[c]] | l # ls \<Rightarrow> (c # l) # ls))"

text \<open>\<open>str.strip()\<close> without argument removes leading and trailing whitespace.\<close>

definition is_space :: "char \<Rightarrow> bool" where
  "is_space c \<longleftrightarrow>
     c \<in> set [CHR 0x09, CHR 0x0A, CHR 0x0B, CHR 0x0C, CHR 0x0D, CHR 0x1C, CHR 0x1D, CHR 0x1E,
              CHR 0x1F, CHR 0x20, CHR 0x85, CHR 0xA0]"

definition strip :: "string \<Rightarrow> string" where
  "strip s = rev (dropWhile is_space (rev (dropWhile is_space s)))"

text \<open>\<open>s.split(sep)\<close> for a one-character separator: every occurrence splits, and empty
  fields are kept.\<close>

fun split :: "char \<Rightarrow> string \<Rightarrow> string list" where
  "split sep [] = [[]]"
| "split sep (c # cs) =
     (if c = sep then [] # split sep cs
      else (case split sep cs of [] \<Rightarrow> [[c]] | f # fs \<Rightarrow> (c # f) # fs))"

text \<open>\<open>sub in s\<close> on strings.\<close>

fun starts_with :: "string \<Rightarrow> string \<Rightarrow> bool" where
  "starts_with [] s = True"
| "starts_with (p # ps) [] = False"
| "starts_with (p # ps) (c # cs) = (p = c \<and> starts_with ps cs)"

fun str_contains :: "string \<Rightarrow> string \<Rightarrow> bool" where
  "str_contains sub [] = (sub = [])"
| "str_contains sub (c # cs) = (starts_with sub (c # cs) \<or> str_contains sub cs)"

text \<open>\<open>bool(x)\<close> and \<open>x or y\<close> for an optional string: \<open>None\<close> and the empty string are
  false.\<close>

fun truthy :: "string option \<Rightarrow> bool" where
  "truthy None = False"
| "truthy (Some s) = (s \<noteq> [])"

definition or_else :: "string option \<Rightarrow> string \<Rightarrow> string" where
  "or_else x y = (case x of None \<Rightarrow> y | Some s \<Rightarrow> if s = [] then y else s)"

text \<open>\<open>d.get(k, default)\<close>.\<close>

definition dict_get :: "('k \<rightharpoonup> 'v) \<Rightarrow> 'k \<Rightarrow> 'v \<Rightarrow> 'v" where
  "dict_get d k dflt = (case d k of None \<Rightarrow> dflt | Some v \<Rightarrow> v)"


section \<open>The shared scan: \<open>TVDiscoveryBase\<close>\<close>

text \<open>
  The dictionary that \<open>scan_network\<close> builds for an accepted device has six fixed keys;
  \<open>extra\<close> holds the keys an enrichment hook adds afterwards.
\<close>

record device =
  ip :: string
  mac :: string
  description :: string
  device_type :: string
  untested :: bool
  warning :: "string option"
  extra :: "(string \<times> string) list"

text \<open>
  A discovery class is the record of its methods. \<open>is_tv_device\<close> and
  \<open>enrich_device_info\<close> are the hooks \<open>_is_tv_device\<close> and \<open>_enrich_device_info\<close>;
  a hook may raise. The hook \<open>_enrich_device_info\<close> mutates the dictionary it is given,
  here it returns the updated one.
\<close>

record strategy =
  get_name :: string
  get_mac_prefixes :: "string \<rightharpoonup> string"
  get_warning_message :: "string option"
  is_tv_device :: "string option \<Rightarrow> exn + bool"
  enrich_device_info :: "device \<Rightarrow> exn + device"

text \<open>The defaults of the base class (lines 22-24 and 88-90).\<close>

definition base_get_warning_message :: "string option" where
  "base_get_warning_message = None"

definition base_enrich_device_info :: "device \<Rightarrow> exn + device" where
  "base_enrich_device_info d = Inr d"

text \<open>Lines 43-48: a line without a tab is skipped, the stripped line is split at tabs,
  fewer than two fields are skipped, a third field is the description.\<close>

definition parse_line :: "string \<Rightarrow> (string \<times> string \<times> string option) option" where
  "parse_line line =
     (if TAB \<notin> set line then None
      else (case split TAB (strip line) of
              i # m # rest \<Rightarrow> Some (i, m, (case rest of [] \<Rightarrow> None | d # _ \<Rightarrow> Some d))
            | _ \<Rightarrow> None))"

text \<open>Line 51.\<close>

definition blacklisted :: "string list \<Rightarrow> string \<Rightarrow> bool" where
  "blacklisted blacklisted_macs m \<longleftrightarrow> lower m \<in> set (map lower blacklisted_macs)"

text \<open>Line 56.\<close>

definition mac_prefix :: "string \<Rightarrow> string" where
  "mac_prefix m = take 8 (upper m)"

text \<open>Lines 59-68.\<close>

definition make_device :: "strategy \<Rightarrow> string \<Rightarrow> string \<Rightarrow> string option \<Rightarrow> device" where
  "make_device S i m desc =
     (let warning_msg = get_warning_message S in
      \<lparr> ip = i,
        mac = m,
        description =
          or_else desc (dict_get (get_mac_prefixes S) (mac_prefix m) (get_name S @ '' Device'')),
        device_type =
          dict_get (get_mac_prefixes S) (mac_prefix m) (''Unknown '' @ get_name S @ '' Model''),
        untested = truthy warning_msg,
        warning = warning_msg,
        extra = [] \<rparr>)"

text \<open>Line 58: \<open>or\<close> evaluates its right operand only when the left one is false.\<close>

definition is_ours :: "strategy \<Rightarrow> string \<Rightarrow> string option \<Rightarrow> exn + bool" where
  "is_ours S m desc =
     (if mac_prefix m \<in> dom (get_mac_prefixes S) then Inr True else is_tv_device S desc)"

text \<open>One iteration of the loop of lines 42-74, on the list \<open>devices\<close> built so far.\<close>

definition scan_step :: "strategy \<Rightarrow> string list \<Rightarrow> device list \<Rightarrow> string \<Rightarrow> exn + device list"
  where
  "scan_step S blacklisted_macs devices line =
     (case parse_line line of
        None \<Rightarrow> Inr devices
      | Some (i, m, desc) \<Rightarrow>
          if blacklisted blacklisted_macs m then Inr devices
          else (case is_ours S m desc of
                  Inl e \<Rightarrow> Inl e
                | Inr False \<Rightarrow> Inr devices
                | Inr True \<Rightarrow>
                    (case enrich_device_info S (make_device S i m desc) of
                       Inl e \<Rightarrow> Inl e
                     | Inr d \<Rightarrow> Inr (devices @ [d]))))"

fun scan_loop :: "strategy \<Rightarrow> string list \<Rightarrow> device list \<Rightarrow> string list \<Rightarrow> exn + device list"
  where
  "scan_loop S blacklisted_macs devices [] = Inr devices"
| "scan_loop S blacklisted_macs devices (line # lines) =
     (case scan_step S blacklisted_macs devices line of
        Inl e \<Rightarrow> Inl e
      | Inr devices' \<Rightarrow> scan_loop S blacklisted_macs devices' lines)"

text \<open>
  The body of the \<open>try\<close> (lines 29-75). The settings module is not part of the sources
  at hand, so what loading the blacklist gives is a parameter, and so is what running
  \<open>arp-scan\<close> gives: its standard output, or the exception of \<open>subprocess.run\<close>
  (\<open>CalledProcessError\<close> for a non-zero exit, as \<open>check=True\<close> asks).
\<close>

definition scan_body :: "strategy \<Rightarrow> exn + string list \<Rightarrow> exn + string \<Rightarrow> exn + device list" where
  "scan_body S settings_blacklist arp_scan =
     (case settings_blacklist of
        Inl e \<Rightarrow> Inl e
      | Inr blacklisted_macs \<Rightarrow>
          (case arp_scan of
             Inl e \<Rightarrow> Inl e
           | Inr stdout \<Rightarrow> scan_loop S blacklisted_macs [] (splitlines stdout)))"

text \<open>Lines 28 and 76-81: both handlers return the empty list.\<close>

definition scan_network :: "strategy \<Rightarrow> exn + string list \<Rightarrow> exn + string \<Rightarrow> exn + device list"
  where
  "scan_network S settings_blacklist arp_scan =
     (case scan_body S settings_blacklist arp_scan of
        Inr devices \<Rightarrow> Inr devices
      | Inl (CalledProcessError rc) \<Rightarrow> Inr []
      | Inl e \<Rightarrow> Inr [])"


section \<open>\<open>WebOSDiscovery\<close>\<close>

definition webos_prefix_table :: "(string \<times> string) list" where
  "webos_prefix_table =
   [(''00:E0:70'', ''LG Electronics''),
    (''00:1C:62'', ''LG Electronics''),
    (''00:1E:75'', ''LG Electronics''),
    (''00:1F:6B'', ''LG Electronics''),
    (''00:1F:E3'', ''LG Electronics''),
    (''00:22:A9'', ''LG Electronics''),
    (''00:24:83'', ''LG Electronics''),
    (''00:25:E5'', ''LG Electronics''),
    (''00:26:E2'', ''LG Electronics''),
    (''00:34:DA'', ''LG Electronics''),
    (''00:3A:AF'', ''LG Electronics''),
    (''00:50:BA'', ''LG Electronics''),
    (''00:52:A1'', ''LG Electronics''),
    (''00:AA:70'', ''LG Electronics''),
    (''00:5A:13'', ''LG WebOS TV''),
    (''00:C0:38'', ''LG TV''),
    (''04:4E:5A'', ''LG WebOS TV''),
    (''08:D4:6A'', ''LG TV''),
    (''10:68:3F'', ''LG Electronics TV''),
    (''10:F1:F2'', ''LG TV''),
    (''10:F9:6F'', ''LG Electronics TV''),
    (''2C:54:CF'', ''LG Electronics TV''),
    (''2C:59:8A'', ''LG Electronics TV''),
    (''34:4D:F7'', ''LG Electronics TV''),
    (''38:8C:50'', ''LG Electronics TV''),
    (''3C:BD:D8'', ''LG Electronics TV''),
    (''40:B0:FA'', ''LG Electronics TV''),
    (''48:59:29'', ''LG Electronics TV''),
    (''50:55:27'', ''LG Electronics TV''),
    (''58:A2:B5'', ''LG Electronics TV''),
    (''60:E3:AC'', ''LG Electronics TV''),
    (''64:99:5D'', ''LG Electronics TV''),
    (''6C:DD:BC'', ''LG Electronics TV''),
    (''70:91:8F'', ''LG Electronics TV''),
    (''74:A5:28'', ''LG Electronics TV''),
    (''78:5D:C8'', ''LG Electronics TV''),
    (''7C:1C:4E'', ''LG Electronics TV''),
    (''7C:AB:25'', ''LG WebOS TV''),
    (''88:36:6C'', ''LG Electronics TV''),
    (''8C:3C:4A'', ''LG Electronics TV''),
    (''98:93:CC'', ''LG Electronics TV''),
    (''98:D6:F7'', ''LG Electronics TV''),
    (''A0:39:F7'', ''LG Electronics TV''),
    (''A8:16:B2'', ''LG Electronics TV''),
    (''A8:23:FE'', ''LG Electronics TV''),
    (''AC:0D:1B'', ''LG Electronics TV''),
    (''B4:0E:DC'', ''LG Smart TV''),
    (''B4:E6:2A'', ''LG Electronics TV''),
    (''B8:1D:AA'', ''LG Electronics TV''),
    (''B8:AD:3E'', ''LG Electronics TV''),
    (''BC:8C:CD'', ''LG Smart TV''),
    (''BC:F5:AC'', ''LG Electronics TV''),
    (''C4:36:6C'', ''LG Electronics TV''),
    (''C4:9A:02'', ''LG Smart TV''),
    (''C8:02:8F'', ''LG Electronics TV''),
    (''C8:08:E9'', ''LG Electronics TV''),
    (''CC:2D:8C'', ''LG Electronics TV''),
    (''CC:FA:00'', ''LG Electronics TV''),
    (''D0:13:FD'', ''LG Electronics TV''),
    (''D8:4D:2C'', ''LG Electronics TV''),
    (''DC:0B:34'', ''LG Electronics TV''),
    (''E8:5B:5B'', ''LG Electronics TV''),
    (''E8:F2:E2'', ''LG Electronics TV''),
    (''F0:1C:13'', ''LG Electronics TV''),
    (''F8:0C:F3'', ''LG Electronics TV''),
    (''FC:4D:8C'', ''LG WebOS TV'')]"

text \<open>Line 90: \<open>in\<close> on \<open>None\<close> raises \<open>TypeError\<close>.\<close>

fun webos_is_tv_device :: "string option \<Rightarrow> exn + bool" where
  "webos_is_tv_device None = Inl TypeError"
| "webos_is_tv_device (Some desc) =
     Inr (str_contains ''LG Electronics'' desc \<or> str_contains ''WebOS'' desc)"

definition WebOSDiscovery :: strategy where
  "WebOSDiscovery =
     \<lparr> get_name = ''LG WebOS'',
       get_mac_prefixes = map_of webos_prefix_table,
       get_warning_message = None,
       is_tv_device = webos_is_tv_device,
       enrich_device_info = base_enrich_device_info \<rparr>"


section \<open>The reachability test of \<open>WebOSDiscovery\<close>\<close>

text \<open>
  The names bound at the top level of \<open>webos_discovery.py\<close> when \<open>test_connection\<close> runs:
  the imports of lines 1-6, \<open>logger\<close> (line 8) and the class (line 10). A name that is
  neither local nor bound here nor a builtin raises \<open>NameError\<close> where it is evaluated.
\<close>

definition webos_module_globals :: "string list" where
  "webos_module_globals =
     [''logging'', ''asyncio'', ''Optional'', ''Dict'', ''TVDiscoveryBase'',
      ''TVDiscoveryFactory'', ''logger'', ''WebOSDiscovery'']"

definition lookup_name :: "string list \<Rightarrow> string \<Rightarrow> exn + unit" where
  "lookup_name globals n = (if n \<in> set globals then Inr () else Inl (NameError n))"

text \<open>
  What the network and the operating system answer:
  \<^item> \<open>nc\<close>: running \<open>nc -zv -w1 ip port\<close> to its end gives its return code, or
    \<open>create_subprocess_exec\<close> raises (the tool is not installed);
  \<^item> \<open>connect_ex\<close>: a socket is created and connected, giving the error number
    (0 when the connection is made), or an exception;
  \<^item> \<open>gethostbyaddr\<close>: the host name of the address, or an exception
    (\<open>HError\<close> is \<open>socket.herror\<close>).
\<close>

record probe_env =
  nc :: "string \<Rightarrow> string \<Rightarrow> exn + int"
  connect_ex :: "string \<Rightarrow> nat \<Rightarrow> exn + int"
  gethostbyaddr :: "string \<Rightarrow> exn + string"

definition nc_ports :: "string list" where
  "nc_ports = [''3000'', ''3001'', ''8080'', ''8001'', ''8002'']"

definition webos_ports :: "nat list" where
  "webos_ports = [3000, 3001, 8080, 8001, 8002]"

text \<open>Lines 142-155: the loop of \<open>_test_connection_nc\<close>; an exception leaves it.\<close>

fun nc_loop :: "probe_env \<Rightarrow> string \<Rightarrow> string list \<Rightarrow> exn + bool" where
  "nc_loop env addr [] = Inr False"
| "nc_loop env addr (port # ports) =
     (case nc env addr port of
        Inl e \<Rightarrow> Inl e
      | Inr returncode \<Rightarrow> if returncode = 0 then Inr True else nc_loop env addr ports)"

text \<open>Lines 139 and 156-158: any exception of the loop makes the answer \<open>False\<close>.\<close>

definition test_connection_nc :: "probe_env \<Rightarrow> string \<Rightarrow> exn + bool" where
  "test_connection_nc env addr =
     (case nc_loop env addr nc_ports of Inl e \<Rightarrow> Inr False | Inr b \<Rightarrow> Inr b)"

text \<open>Lines 106-109: the body of the inner \<open>try\<close>, which first evaluates the name
  \<open>socket\<close>.\<close>

definition socket_connect :: "string list \<Rightarrow> probe_env \<Rightarrow> string \<Rightarrow> nat \<Rightarrow> exn + int" where
  "socket_connect globals env addr port =
     (case lookup_name globals ''socket'' of
        Inl e \<Rightarrow> Inl e
      | Inr _ \<Rightarrow> connect_ex env addr port)"

text \<open>Lines 104-116: \<open>True\<close> when the loop returns from the function, \<open>False\<close> when it
  runs to its end; an exception of one port is caught and the next port is tried.\<close>

fun socket_loop :: "string list \<Rightarrow> probe_env \<Rightarrow> string \<Rightarrow> nat list \<Rightarrow> bool" where
  "socket_loop globals env addr [] = False"
| "socket_loop globals env addr (port # ports) =
     (case socket_connect globals env addr port of
        Inl e \<Rightarrow> socket_loop globals env addr ports
      | Inr result \<Rightarrow> if result = 0 then True else socket_loop globals env addr ports)"

text \<open>Lines 119-127. When the call raises, the clause \<open>except socket.herror\<close> evaluates
  the name \<open>socket\<close> again to find out whether it handles the exception; \<open>socket.herror\<close>
  is passed over and the function goes on to \<open>return False\<close>, any other exception leaves
  the statement.\<close>

definition resolve_host :: "string list \<Rightarrow> probe_env \<Rightarrow> string \<Rightarrow> exn + bool" where
  "resolve_host globals env addr =
     (case (case lookup_name globals ''socket'' of
              Inl e \<Rightarrow> Inl e
            | Inr _ \<Rightarrow> gethostbyaddr env addr) of
        Inr hostname \<Rightarrow> Inr True
      | Inl e \<Rightarrow>
          (case lookup_name globals ''socket'' of
             Inl e' \<Rightarrow> Inl e'
           | Inr _ \<Rightarrow> if e = HError then Inr False else Inl e))"

text \<open>Lines 97-127, the body of the outer \<open>try\<close>.\<close>

definition test_connection_body :: "string list \<Rightarrow> probe_env \<Rightarrow> string \<Rightarrow> exn + bool" where
  "test_connection_body globals env addr =
     (case test_connection_nc env addr of
        Inl e \<Rightarrow> Inl e
      | Inr True \<Rightarrow> Inr True
      | Inr False \<Rightarrow>
          if socket_loop globals env addr webos_ports then Inr True
          else resolve_host globals env addr)"

text \<open>Lines 96 and 129-131.\<close>

definition test_connection_in :: "string list \<Rightarrow> probe_env \<Rightarrow> string \<Rightarrow> exn + bool" where
  "test_connection_in globals env addr =
     (case test_connection_body globals env addr of Inl e \<Rightarrow> Inr False | Inr b \<Rightarrow> Inr b)"

definition test_connection :: "probe_env \<Rightarrow> string \<Rightarrow> exn + bool" where
  "test_connection env addr = test_connection_in webos_module_globals env addr"


section \<open>\<open>TVDiscoveryFactory\<close>\<close>

text \<open>
  A discovery object is known by its class and its identity; \<open>oid\<close> numbers the objects
  in the order of their construction. The state of the process that matters here is the
  class attribute \<open>_discoveries\<close>, the discovery modules imported so far, and the
  objects constructed so far.
\<close>

record discovery_obj =
  cls :: string
  oid :: nat

record factory_state =
  discoveries :: "(string \<times> discovery_obj) list"
  sys_modules :: "string list"
  constructed :: "discovery_obj list"

text \<open>\<open>d[k] = v\<close> on a dictionary kept as the list of its items: the value of an
  existing key is replaced in place, a new key is added at the end.\<close>

fun dict_set :: "('k \<times> 'v) list \<Rightarrow> 'k \<Rightarrow> 'v \<Rightarrow> ('k \<times> 'v) list" where
  "dict_set [] k v = [(k, v)]"
| "dict_set ((k', v') # d) k v =
     (if k' = k then (k', v) # d else (k', v') # dict_set d k v)"

text \<open>Lines 97-100.\<close>

definition register :: "string \<Rightarrow> discovery_obj \<Rightarrow> factory_state \<Rightarrow> factory_state" where
  "register tv_type discovery_class st =
     st\<lparr>discoveries := dict_set (discoveries st) tv_type discovery_class\<rparr>"

text \<open>Calling a class: a new object, recorded as constructed.\<close>

definition construct :: "string \<Rightarrow> factory_state \<Rightarrow> discovery_obj \<times> factory_state" where
  "construct c st =
     (let obj = \<lparr>cls = c, oid = length (constructed st)\<rparr>
      in (obj, st\<lparr>constructed := constructed st @ [obj]\<rparr>))"

text \<open>
  \<open>from ..discovery.webos_discovery import WebOSDiscovery\<close>: the first import of the
  module runs its top level, whose last statement (line 161 of \<open>webos_discovery.py\<close>)
  constructs a \<open>WebOSDiscovery\<close> and registers it; a later import finds the module
  loaded and runs nothing.
\<close>

definition import_webos_discovery :: "factory_state \<Rightarrow> factory_state" where
  "import_webos_discovery st =
     (if ''webos_discovery'' \<in> set (sys_modules st) then st
      else (let st1 = st\<lparr>sys_modules := sys_modules st @ [''webos_discovery'']\<rparr>;
                (obj, st2) = construct ''WebOSDiscovery'' st1
            in register ''webos'' obj st2))"

text \<open>
  Lines 102-117. The modules \<open>tizen_discovery\<close> and \<open>android_discovery\<close> are not among
  the sources at hand: \<open>load\<close> stands for importing such a module and constructing its
  class, and gives the new object and state, or the exception raised.
\<close>

definition get_discovery ::
  "(string \<Rightarrow> factory_state \<Rightarrow> exn + discovery_obj \<times> factory_state) \<Rightarrow> string \<Rightarrow> factory_state
     \<Rightarrow> exn + discovery_obj option \<times> factory_state" where
  "get_discovery load tv_type st =
     (case (if tv_type \<notin> set (map fst (discoveries st)) then
              (if tv_type = ''webos'' then
                 (let (obj, st') = construct ''WebOSDiscovery'' (import_webos_discovery st)
                  in Inr (register ''webos'' obj st'))
               else if tv_type = ''tizen'' then
                 (case load ''tizen'' st of
                    Inl e \<Rightarrow> Inl e
                  | Inr (obj, st') \<Rightarrow> Inr (register ''tizen'' obj st'))
               else if tv_type = ''android'' then
                 (case load ''android'' st of
                    Inl e \<Rightarrow> Inl e
                  | Inr (obj, st') \<Rightarrow> Inr (register ''android'' obj st'))
               else Inr st)
            else Inr st) of
        Inl e \<Rightarrow> Inl e
      | Inr st' \<Rightarrow> Inr (map_of (discoveries st') tv_type, st'))"

text \<open>A process that has imported \<open>tv_discovery.py\<close> and nothing else of the package.\<close>

definition fresh_process :: factory_state where
  "fresh_process = \<lparr>discoveries = [], sys_modules = [], constructed = []\<rparr>"


section \<open>Notions used by the statements\<close>

text \<open>A line whose MAC field is on the blacklist (the test of line 51 on a parsed line).\<close>

definition line_blacklisted :: "string list \<Rightarrow> string \<Rightarrow> bool" where
  "line_blacklisted blacklisted_macs line =
     (case parse_line line of
        None \<Rightarrow> False
      | Some (i, m, desc) \<Rightarrow> blacklisted blacklisted_macs m)"

text \<open>The device \<open>d\<close> is what one iteration appends for \<open>line\<close>: the line parses, its MAC
  is not blacklisted, line 58 accepts it, and the enrichment hook returns \<open>d\<close> for the
  dictionary of lines 61-68.\<close>

definition accepted_from :: "strategy \<Rightarrow> string list \<Rightarrow> string \<Rightarrow> device \<Rightarrow> bool" where
  "accepted_from S blacklisted_macs line d =
     (case parse_line line of
        None \<Rightarrow> False
      | Some (i, m, desc) \<Rightarrow>
          \<not> blacklisted blacklisted_macs m \<and> is_ours S m desc = Inr True \<and>
          enrich_device_info S (make_device S i m desc) = Inr d)"

text \<open>A MAC address in upper case.\<close>

definition canonical_mac :: "string \<Rightarrow> bool" where
  "canonical_mac m \<longleftrightarrow> upper m = m"

text \<open>Scanner lines and network answers used as concrete inputs.\<close>

definition lg_tv_line :: string where
  "lg_tv_line = ''192.168.1.5'' @ [TAB] @ ''7C:AB:25:11:22:33'' @ [TAB] @ ''My LG TV''"

definition lg_tv_lowercase_line :: string where
  "lg_tv_lowercase_line = ''192.168.1.5'' @ [TAB] @ ''7c:ab:25:11:22:33'' @ [TAB] @ ''My LG TV''"


definition other_bare_line :: string where
  "other_bare_line = ''192.168.1.9'' @ [TAB] @ ''AA:BB:CC:00:11:22''"

definition lg_tv_device :: device where
  "lg_tv_device =
     \<lparr> ip = ''192.168.1.5'', mac = ''7C:AB:25:11:22:33'', description = ''My LG TV'',
       device_type = ''LG WebOS TV'', untested = False, warning = None, extra = [] \<rparr>"

text \<open>\<open>nc\<close> is not installed, port 3000 accepts connections, the address has no name.\<close>

definition port_3000_open :: probe_env where
  "port_3000_open =
     \<lparr> nc = (\<lambda>addr port. Inl FileNotFoundError),
       connect_ex = (\<lambda>addr port. if port = 3000 then Inr 0 else Inr 111),
       gethostbyaddr = (\<lambda>addr. Inl HError) \<rparr>"

text \<open>\<open>nc\<close> exits with 1 on every port, no port accepts a connection, the address has
  no name.\<close>

definition nothing_answers :: probe_env where
  "nothing_answers =
     \<lparr> nc = (\<lambda>addr port. Inr 1),
       connect_ex = (\<lambda>addr port. Inr 111),
       gethostbyaddr = (\<lambda>addr. Inl HError) \<rparr>"

text \<open>\<open>nc\<close> exits with 1 on every port, no port accepts a connection, and the address
  resolves to a host name.\<close>

definition only_name_resolves :: probe_env where
  "only_name_resolves =
     \<lparr> nc = (\<lambda>addr port. Inr 1),
       connect_ex = (\<lambda>addr port. Inr 111),
       gethostbyaddr = (\<lambda>addr. Inr ''lgwebostv'') \<rparr>"


text \<open>The devices that lines 61-68 build for the lines above.\<close>

definition lg_tv_lowercase_device :: device where
  "lg_tv_lowercase_device =
     \<lparr> ip = ''192.168.1.5'', mac = ''7c:ab:25:11:22:33'', description = ''My LG TV'',
       device_type = ''LG WebOS TV'', untested = False, warning = None, extra = [] \<rparr>"


text \<open>The output of a scan that finds the television and then a device without description.\<close>

definition two_line_output :: string where
  "two_line_output = lg_tv_line @ [CHR 0x0A] @ other_bare_line"


text \<open>The \<open>n\<close>-th object constructed, when it is a \<open>WebOSDiscovery\<close>, and the state of the
  process after the first request for \<open>webos\<close>.\<close>

definition webos_obj :: "nat \<Rightarrow> discovery_obj" where
  "webos_obj n = \<lparr>cls = ''WebOSDiscovery'', oid = n\<rparr>"

definition after_first_request :: factory_state where
  "after_first_request =
     \<lparr> discoveries = [(''webos'', webos_obj 1)],
       sys_modules = [''webos_discovery''],
       constructed = [webos_obj 0, webos_obj 1] \<rparr>"

text \<open>The address probed.\<close>

definition tv_addr :: string where
  "tv_addr = ''192.168.1.5''"


section \<open>The scan of one LG television\<close>

text \<open>
  Claim C1. For the scanner output line \<open>192.168.1.5<TAB>7C:AB:25:11:22:33<TAB>My LG TV\<close>
  (with or without a final newline) and an empty blacklist, \<open>scan_network\<close> of the WebOS
  discovery returns exactly one device, with this address, this MAC, the device type
  \<open>LG WebOS TV\<close> of the table entry \<open>7C:AB:25\<close>, and \<open>untested\<close> false.
\<close>

theorem scan_network_lg_tv:
  "scan_network WebOSDiscovery (Inr []) (Inr lg_tv_line) = Inr [lg_tv_device] \<and>
   scan_network WebOSDiscovery (Inr []) (Inr (lg_tv_line @ [CHR 0x0A])) = Inr [lg_tv_device] \<and>
   map_of webos_prefix_table ''7C:AB:25'' = Some (device_type lg_tv_device) \<and>
   ip lg_tv_device = ''192.168.1.5'' \<and> mac lg_tv_device = ''7C:AB:25:11:22:33'' \<and>
   device_type lg_tv_device = ''LG WebOS TV'' \<and> untested lg_tv_device = False"
  by code_simp

section \<open>What a scan returns\<close>

lemma scan_step_blacklisted:
  "line_blacklisted bl line \<Longrightarrow> scan_step S bl devs line = Inr devs"
  by (auto simp: line_blacklisted_def scan_step_def split: option.splits)

lemma scan_loop_filter:
  "scan_loop S bl devs (filter (\<lambda>l. \<not> line_blacklisted bl l) lines) = scan_loop S bl devs lines"
  by (induction lines arbitrary: devs) (auto simp: scan_step_blacklisted split: sum.splits)

lemma scan_step_origin:
  assumes "scan_step S bl devs line = Inr devs'"
  shows "devs' = devs \<or> (\<exists>d. accepted_from S bl line d \<and> devs' = devs @ [d])"
  using assms
  by (auto simp: scan_step_def accepted_from_def split: option.splits if_splits sum.splits bool.splits)

lemma scan_loop_origin:
  "scan_loop S bl devs lines = Inr ds \<Longrightarrow> d \<in> set ds \<Longrightarrow>
     d \<in> set devs \<or> (\<exists>line \<in> set lines. accepted_from S bl line d)"
proof (induction lines arbitrary: devs)
  case Nil
  then show ?case by simp
next
  case (Cons line lines)
  from Cons.prems(1) obtain devs' where
    step: "scan_step S bl devs line = Inr devs'" and rest: "scan_loop S bl devs' lines = Inr ds"
    by (auto split: sum.splits)
  from Cons.IH [OF rest Cons.prems(2)]
  have "d \<in> set devs' \<or> (\<exists>l \<in> set lines. accepted_from S bl l d)" .
  moreover from scan_step_origin [OF step]
  have "d \<in> set devs' \<Longrightarrow> d \<in> set devs \<or> accepted_from S bl line d" by auto
  ultimately show ?case by auto
qed

lemma scan_network_loop:
  "scan_network S (Inr bl) (Inr out) = Inr ds \<Longrightarrow>
     ds = [] \<or> scan_loop S bl [] (splitlines out) = Inr ds"
  by (auto simp: scan_network_def scan_body_def split: sum.splits exn.splits)

lemma scan_network_origin:
  assumes "scan_network S (Inr bl) (Inr out) = Inr ds" and "d \<in> set ds"
  shows "\<exists>line \<in> set (splitlines out). accepted_from S bl line d"
proof -
  from scan_network_loop [OF assms(1)] assms(2)
  have "scan_loop S bl [] (splitlines out) = Inr ds" by auto
  from scan_loop_origin [OF this assms(2)] show ?thesis by simp
qed

lemma scan_network_total: "\<exists>ds. scan_network S blr arp = Inr ds"
  by (auto simp: scan_network_def split: sum.splits exn.splits)

lemma scan_network_caught:
  "scan_body S blr arp = Inl e \<Longrightarrow> scan_network S blr arp = Inr []"
  by (auto simp: scan_network_def split: exn.splits)

lemma make_device_fields:
  "ip (make_device S i m desc) = i"
  "mac (make_device S i m desc) = m"
  "untested (make_device S i m desc) = truthy (get_warning_message S)"
  "warning (make_device S i m desc) = get_warning_message S"
  "device_type (make_device S i m desc) =
     dict_get (get_mac_prefixes S) (mac_prefix m) (''Unknown '' @ get_name S @ '' Model'')"
  by (simp_all add: make_device_def Let_def)


section \<open>The blacklist\<close>

text \<open>
  Claim C2. For every scanner output and every blacklist, a line whose MAC address is in
  the blacklist (compared in lower case) adds nothing to the result of \<open>scan_network\<close>,
  whatever its MAC prefix and description: its iteration leaves the list of devices as it
  is for every strategy, so that neither the classification nor the enrichment hook decides
  anything for it (a hook that raised would show); the scan is the scan of the other lines;
  every returned device is what the enrichment hook gave for a device whose MAC is not
  blacklisted, and where the hook leaves the MAC alone, no returned MAC is blacklisted.
\<close>

theorem blacklisted_excluded:
  "(line_blacklisted bl line \<longrightarrow> scan_step S bl devs line = Inr devs) \<and>
   scan_network S (Inr bl) (Inr out) =
     (case scan_loop S bl [] (filter (\<lambda>l. \<not> line_blacklisted bl l) (splitlines out)) of
        Inl e \<Rightarrow> Inr [] | Inr ds \<Rightarrow> Inr ds) \<and>
   (scan_network S (Inr bl) (Inr out) = Inr ds \<longrightarrow>
      (\<forall>d \<in> set ds. \<exists>c. enrich_device_info S c = Inr d \<and> \<not> blacklisted bl (mac c))) \<and>
   (scan_network S (Inr bl) (Inr out) = Inr ds \<longrightarrow>
    (\<forall>c d. enrich_device_info S c = Inr d \<longrightarrow> mac d = mac c) \<longrightarrow>
      (\<forall>d \<in> set ds. \<not> blacklisted bl (mac d)))"
proof (intro conjI impI ballI)
  show "scan_step S bl devs line = Inr devs" if "line_blacklisted bl line"
    using that by (rule scan_step_blacklisted)
  show "scan_network S (Inr bl) (Inr out) =
     (case scan_loop S bl [] (filter (\<lambda>l. \<not> line_blacklisted bl l) (splitlines out)) of
        Inl e \<Rightarrow> Inr [] | Inr ds \<Rightarrow> Inr ds)"
    by (simp add: scan_loop_filter scan_network_def scan_body_def split: sum.splits exn.splits)
  have origin: "\<exists>c. enrich_device_info S c = Inr d \<and> \<not> blacklisted bl (mac c)"
    if "scan_network S (Inr bl) (Inr out) = Inr ds" and "d \<in> set ds" for d
  proof -
    from scan_network_origin [OF that] obtain line where "accepted_from S bl line d" by blast
    then obtain i m desc where "\<not> blacklisted bl m"
      and "enrich_device_info S (make_device S i m desc) = Inr d"
      by (auto simp: accepted_from_def split: option.splits)
    moreover have "mac (make_device S i m desc) = m" by (simp add: make_device_fields)
    ultimately show ?thesis by metis
  qed
  show "\<exists>c. enrich_device_info S c = Inr d \<and> \<not> blacklisted bl (mac c)"
    if "scan_network S (Inr bl) (Inr out) = Inr ds" and "d \<in> set ds" for d
    using that by (rule origin)
  show "\<not> blacklisted bl (mac d)"
    if "scan_network S (Inr bl) (Inr out) = Inr ds"
      and "\<forall>c d. enrich_device_info S c = Inr d \<longrightarrow> mac d = mac c" and "d \<in> set ds" for d
    using origin [OF that(1) that(3)] that(2) by metis
qed

theorem blacklisted_excluded_witness:
  "line_blacklisted [''7c:ab:25:11:22:33''] lg_tv_line \<and>
   scan_step WebOSDiscovery [''7c:ab:25:11:22:33''] [] lg_tv_line = Inr [] \<and>
   scan_network WebOSDiscovery (Inr [''7c:ab:25:11:22:33'']) (Inr lg_tv_line) = Inr [] \<and>
   scan_network WebOSDiscovery (Inr [''AA:BB:CC:00:11:22'']) (Inr lg_tv_line) = Inr [lg_tv_device] \<and>
   \<not> blacklisted [''AA:BB:CC:00:11:22''] (mac lg_tv_device)"
proof -
  have bl: "line_blacklisted [''7c:ab:25:11:22:33''] lg_tv_line" by code_simp
  have flt: "(case scan_loop WebOSDiscovery [''7c:ab:25:11:22:33''] []
               (filter (\<lambda>l. \<not> line_blacklisted [''7c:ab:25:11:22:33''] l) (splitlines lg_tv_line)) of
        Inl e \<Rightarrow> Inr [] | Inr ds \<Rightarrow> Inr ds) = (Inr [] :: exn + device list)" by code_simp
  have other: "scan_network WebOSDiscovery (Inr [''AA:BB:CC:00:11:22'']) (Inr lg_tv_line) = Inr [lg_tv_device]"
    by code_simp
  have hook: "\<forall>c d. enrich_device_info WebOSDiscovery c = Inr d \<longrightarrow> mac d = mac c"
    by (simp add: WebOSDiscovery_def base_enrich_device_info_def)
  note t1 = blacklisted_excluded [of "[''7c:ab:25:11:22:33'']" lg_tv_line WebOSDiscovery "[]" lg_tv_line "[]"]
  note t2 = blacklisted_excluded [of "[''AA:BB:CC:00:11:22'']" lg_tv_line WebOSDiscovery "[]" lg_tv_line "[lg_tv_device]"]
  from t1 bl have s1: "scan_step WebOSDiscovery [''7c:ab:25:11:22:33''] [] lg_tv_line = Inr []" by blast
  from t1 flt have s2: "scan_network WebOSDiscovery (Inr [''7c:ab:25:11:22:33'']) (Inr lg_tv_line) = Inr []"
    by simp
  from t2 other hook have "\<forall>d \<in> set [lg_tv_device]. \<not> blacklisted [''AA:BB:CC:00:11:22''] (mac d)"
    by blast
  then have s3: "\<not> blacklisted [''AA:BB:CC:00:11:22''] (mac lg_tv_device)" by simp
  from bl s1 s2 other s3 show ?thesis by blast
qed

lemma scan_network_inputs:
  "scan_network S blr arp = Inr ds \<Longrightarrow> d \<in> set ds \<Longrightarrow> \<exists>bl out. blr = Inr bl \<and> arp = Inr out"
  by (auto simp: scan_network_def scan_body_def split: sum.splits exn.splits)

section \<open>Failures of the scan\<close>

text \<open>
  Claim C5. Whatever fails in the scan, \<open>scan_network\<close> returns the empty list and raises
  nothing: when \<open>arp-scan\<close> cannot be run or exits with a non-zero code (\<open>subprocess.run\<close>
  raises), when loading the blacklist raises, and when any exception leaves the body of
  the \<open>try\<close>, a hook's included. In every case the result is a list.
\<close>

theorem scan_failure_gives_empty:
  "scan_network S blr (Inl e) = Inr [] \<and>
   scan_network S (Inl e) arp = Inr [] \<and>
   (scan_body S blr arp = Inl e \<longrightarrow> scan_network S blr arp = Inr []) \<and>
   (\<exists>ds. scan_network S blr arp = Inr ds)"
proof (intro conjI impI)
  show "scan_network S blr (Inl e) = Inr []"
    by (cases blr) (simp_all add: scan_network_def scan_body_def split: exn.splits)
  show "scan_network S (Inl e) arp = Inr []"
    by (simp add: scan_network_def scan_body_def split: exn.splits)
  show "scan_network S blr arp = Inr []" if "scan_body S blr arp = Inl e"
    using that by (rule scan_network_caught)
  show "\<exists>ds. scan_network S blr arp = Inr ds"
    by (rule scan_network_total)
qed

theorem scan_failure_gives_empty_witness:
  "scan_body WebOSDiscovery (Inr []) (Inr other_bare_line) = Inl TypeError \<and>
   scan_network WebOSDiscovery (Inr []) (Inr other_bare_line) = Inr [] \<and>
   scan_network WebOSDiscovery (Inr []) (Inl (CalledProcessError 1)) = Inr [] \<and>
   scan_network WebOSDiscovery (Inr []) (Inl FileNotFoundError) = Inr []"
proof -
  have raised: "scan_body WebOSDiscovery (Inr []) (Inr other_bare_line) = Inl TypeError"
    by code_simp
  from scan_failure_gives_empty [of WebOSDiscovery "Inr []" TypeError "Inr other_bare_line"] raised
  have "scan_network WebOSDiscovery (Inr []) (Inr other_bare_line) = Inr []" by blast
  moreover from scan_failure_gives_empty [of WebOSDiscovery "Inr []" "CalledProcessError 1"]
  have "scan_network WebOSDiscovery (Inr []) (Inl (CalledProcessError 1)) = Inr []" by blast
  moreover from scan_failure_gives_empty [of WebOSDiscovery "Inr []" FileNotFoundError]
  have "scan_network WebOSDiscovery (Inr []) (Inl FileNotFoundError) = Inr []" by blast
  ultimately show ?thesis using raised by blast
qed

section \<open>The fields \<open>untested\<close> and \<open>warning\<close>\<close>

text \<open>
  Claim C8. For every strategy whose enrichment hook leaves the two fields as they are
  (the hook of the base class does), every device that \<open>scan_network\<close> returns has
  \<open>untested\<close> true exactly when the strategy's warning message is non-empty
  (\<open>bool(warning_msg)\<close>), and \<open>warning\<close> equal to that message; so \<open>untested\<close> holds
  exactly when \<open>warning\<close> is a non-empty message. The WebOS discovery has no warning
  message.
\<close>

theorem untested_iff_warning:
  assumes "scan_network S blr arp = Inr ds"
    and "\<forall>c d. enrich_device_info S c = Inr d \<longrightarrow> untested d = untested c \<and> warning d = warning c"
    and "d \<in> set ds"
  shows "untested d = truthy (get_warning_message S) \<and> warning d = get_warning_message S \<and>
         (untested d \<longleftrightarrow> truthy (warning d)) \<and>
         get_warning_message WebOSDiscovery = None"
proof -
  from scan_network_inputs [OF assms(1) assms(3)] obtain bl out
    where "blr = Inr bl" and "arp = Inr out" by blast
  with assms(1) have "scan_network S (Inr bl) (Inr out) = Inr ds" by simp
  from scan_network_origin [OF this assms(3)] obtain line where "accepted_from S bl line d" by blast
  then obtain i m desc where "enrich_device_info S (make_device S i m desc) = Inr d"
    by (auto simp: accepted_from_def split: option.splits)
  with assms(2) have "untested d = untested (make_device S i m desc)"
    and "warning d = warning (make_device S i m desc)" by blast+
  then show ?thesis by (simp add: make_device_fields WebOSDiscovery_def)
qed

theorem untested_iff_warning_witness:
  "scan_network WebOSDiscovery (Inr []) (Inr lg_tv_line) = Inr [lg_tv_device] \<and>
   untested lg_tv_device = False \<and> warning lg_tv_device = None"
proof -
  have run: "scan_network WebOSDiscovery (Inr []) (Inr lg_tv_line) = Inr [lg_tv_device]"
    by code_simp
  have hook: "\<forall>c d. enrich_device_info WebOSDiscovery c = Inr d \<longrightarrow>
      untested d = untested c \<and> warning d = warning c"
    by (simp add: WebOSDiscovery_def base_enrich_device_info_def)
  have "lg_tv_device \<in> set [lg_tv_device]" by simp
  from untested_iff_warning [OF run hook this]
  have "untested lg_tv_device = truthy (get_warning_message WebOSDiscovery)"
    and "warning lg_tv_device = get_warning_message WebOSDiscovery"
    and "get_warning_message WebOSDiscovery = None" by blast+
  then show ?thesis using run by simp
qed

section \<open>The MAC address of a returned device\<close>

text \<open>
  Claim C9 as stated fails: a MAC address that the scanner reports in lower case is
  returned in lower case.
\<close>

theorem lowercase_mac_returned:
  "scan_network WebOSDiscovery (Inr []) (Inr lg_tv_lowercase_line) = Inr [lg_tv_lowercase_device] \<and>
   mac lg_tv_lowercase_device = ''7c:ab:25:11:22:33'' \<and>
   \<not> canonical_mac (mac lg_tv_lowercase_device)"
  by code_simp

text \<open>
  Claim C9, amended. For every strategy whose enrichment hook leaves the MAC as it is,
  the \<open>mac\<close> of every returned device is the second tab-separated field of a line of
  the scanner output, as that line has it: line 63 stores the reported string, and the
  upper-casing of line 56 is applied to the copy used for the prefix lookup only.
\<close>

theorem mac_as_reported:
  assumes "scan_network S (Inr bl) (Inr out) = Inr ds"
    and "\<forall>c d. enrich_device_info S c = Inr d \<longrightarrow> mac d = mac c"
    and "d \<in> set ds"
  shows "\<exists>line \<in> set (splitlines out). \<exists>i desc. parse_line line = Some (i, mac d, desc)"
proof -
  from scan_network_origin [OF assms(1) assms(3)] obtain line
    where line: "line \<in> set (splitlines out)" and acc: "accepted_from S bl line d" by blast
  from acc obtain i m desc where parsed: "parse_line line = Some (i, m, desc)"
    and "enrich_device_info S (make_device S i m desc) = Inr d"
    by (auto simp: accepted_from_def split: option.splits)
  with assms(2) have "mac d = mac (make_device S i m desc)" by blast
  then have "mac d = m" by (simp add: make_device_fields)
  with parsed line show ?thesis by blast
qed

theorem mac_as_reported_witness:
  "scan_network WebOSDiscovery (Inr []) (Inr lg_tv_lowercase_line) = Inr [lg_tv_lowercase_device] \<and>
   (\<exists>i desc. parse_line lg_tv_lowercase_line = Some (i, ''7c:ab:25:11:22:33'', desc))"
proof -
  have run: "scan_network WebOSDiscovery (Inr []) (Inr lg_tv_lowercase_line) = Inr [lg_tv_lowercase_device]"
    by code_simp
  have hook: "\<forall>c d. enrich_device_info WebOSDiscovery c = Inr d \<longrightarrow> mac d = mac c"
    by (simp add: WebOSDiscovery_def base_enrich_device_info_def)
  have lines: "splitlines lg_tv_lowercase_line = [lg_tv_lowercase_line]" by code_simp
  have m: "mac lg_tv_lowercase_device = ''7c:ab:25:11:22:33''" by (simp add: lg_tv_lowercase_device_def)
  have "lg_tv_lowercase_device \<in> set [lg_tv_lowercase_device]" by simp
  from mac_as_reported [OF run hook this] lines m
  have "\<exists>i desc. parse_line lg_tv_lowercase_line = Some (i, ''7c:ab:25:11:22:33'', desc)" by simp
  with run show ?thesis by blast
qed

section \<open>Devices matched by the prefix table\<close>



section \<open>A line without description\<close>

text \<open>
  Claim C4, evaluated on the code. The scanner output has the line of the television and
  then a line with two fields only, whose prefix \<open>AA:BB:CC\<close> is not in the table. The
  description of the second line is \<open>None\<close>, \<open>_is_tv_device\<close> of the WebOS discovery
  evaluates \<open>'LG Electronics' in None\<close>, the \<open>TypeError\<close> leaves the loop, and the handler
  of line 79 returns the empty list: the television found before is lost.
\<close>

theorem absent_description_aborts_scan:
  "scan_body WebOSDiscovery (Inr []) (Inr two_line_output) = Inl TypeError \<and>
   scan_network WebOSDiscovery (Inr []) (Inr two_line_output) = Inr [] \<and>
   splitlines two_line_output = [lg_tv_line, other_bare_line] \<and>
   scan_step WebOSDiscovery [] [] lg_tv_line = Inr [lg_tv_device] \<and>
   parse_line other_bare_line = Some (''192.168.1.9'', ''AA:BB:CC:00:11:22'', None) \<and>
   scan_step WebOSDiscovery [] [lg_tv_device] other_bare_line = Inl TypeError"
  by code_simp

section \<open>The reachability test\<close>

lemma nc_loop_fails:
  "\<forall>port \<in> set ports. nc env addr port \<noteq> Inr 0 \<Longrightarrow> nc_loop env addr ports \<noteq> Inr True"
  by (induction ports) (auto split: sum.splits)

lemma test_connection_nc_total: "\<exists>b. test_connection_nc env addr = Inr b"
  by (cases "nc_loop env addr nc_ports") (auto simp: test_connection_nc_def)

lemma test_connection_nc_fails:
  assumes "\<forall>port \<in> set nc_ports. nc env addr port \<noteq> Inr 0"
  shows "test_connection_nc env addr = Inr False"
  using nc_loop_fails [OF assms]
  by (auto simp: test_connection_nc_def split: sum.splits)

lemma socket_loop_fails:
  "\<forall>port \<in> set ports. connect_ex env addr port \<noteq> Inr 0 \<Longrightarrow> \<not> socket_loop g env addr ports"
  by (induction ports) (auto simp: socket_connect_def lookup_name_def split: sum.splits if_splits)

lemma resolve_host_fails:
  "\<forall>h. gethostbyaddr env addr \<noteq> Inr h \<Longrightarrow> resolve_host g env addr \<noteq> Inr True"
  by (auto simp: resolve_host_def lookup_name_def split: sum.splits if_splits)

lemma test_connection_in_total: "\<exists>b. test_connection_in g env addr = Inr b"
  by (cases "test_connection_body g env addr") (auto simp: test_connection_in_def)

lemma test_connection_in_False:
  "test_connection_in g env addr = Inr False \<longleftrightarrow>
     test_connection_nc env addr = Inr False \<and> \<not> socket_loop g env addr webos_ports \<and>
     resolve_host g env addr \<noteq> Inr True"
proof -
  obtain b where nc: "test_connection_nc env addr = Inr b"
    using test_connection_nc_total by blast
  show ?thesis
  proof (cases b)
    case True
    with nc show ?thesis by (simp add: test_connection_in_def test_connection_body_def)
  next
    case False
    with nc show ?thesis
      by (cases "resolve_host g env addr")
        (auto simp: test_connection_in_def test_connection_body_def)
  qed
qed

text \<open>
  When \<open>nc\<close> fails on every port (it cannot be run, or exits with a non-zero code), no
  socket connection is made on any port and the address resolves to no name,
  \<open>test_connection\<close> returns \<open>False\<close>, for the module as it is and for any set of names
  bound in it. No failure of a single method raises: \<open>test_connection\<close> always returns a
  truth value.
\<close>

lemma all_probes_fail:
  "((\<forall>port \<in> set nc_ports. nc env addr port \<noteq> Inr 0) \<and>
    (\<forall>port \<in> set webos_ports. connect_ex env addr port \<noteq> Inr 0) \<and>
    (\<forall>h. gethostbyaddr env addr \<noteq> Inr h) \<longrightarrow>
      test_connection env addr = Inr False \<and> test_connection_in g env addr = Inr False) \<and>
   (\<exists>b. test_connection env addr = Inr b)"
proof (intro conjI impI)
  assume a: "(\<forall>port \<in> set nc_ports. nc env addr port \<noteq> Inr 0) \<and>
    (\<forall>port \<in> set webos_ports. connect_ex env addr port \<noteq> Inr 0) \<and>
    (\<forall>h. gethostbyaddr env addr \<noteq> Inr h)"
  then have all: "test_connection_in g' env addr = Inr False" for g'
    using test_connection_nc_fails [of env addr] socket_loop_fails [of webos_ports env addr g']
      resolve_host_fails [of env addr g']
    by (simp add: test_connection_in_False)
  from all show "test_connection env addr = Inr False" by (simp add: test_connection_def)
  from all show "test_connection_in g env addr = Inr False" .
next
  show "\<exists>b. test_connection env addr = Inr b"
    unfolding test_connection_def by (rule test_connection_in_total)
qed

lemma all_probes_fail_example:
  "nc nothing_answers tv_addr ''3000'' = Inr 1 \<and>
   connect_ex nothing_answers tv_addr 3000 = Inr 111 \<and>
   gethostbyaddr nothing_answers tv_addr = Inl HError \<and>
   test_connection nothing_answers tv_addr = Inr False \<and>
   test_connection_in (''socket'' # webos_module_globals) nothing_answers tv_addr = Inr False"
proof -
  have h1: "\<forall>port \<in> set nc_ports. nc nothing_answers tv_addr port \<noteq> Inr 0"
    by (simp add: nothing_answers_def)
  have h2: "\<forall>port \<in> set webos_ports. connect_ex nothing_answers tv_addr port \<noteq> Inr 0"
    by (simp add: nothing_answers_def)
  have h3: "\<forall>h. gethostbyaddr nothing_answers tv_addr \<noteq> Inr h"
    by (simp add: nothing_answers_def)
  from all_probes_fail [of nothing_answers tv_addr "''socket'' # webos_module_globals"] h1 h2 h3
  have "test_connection nothing_answers tv_addr = Inr False"
    and "test_connection_in (''socket'' # webos_module_globals) nothing_answers tv_addr = Inr False"
    by blast+
  then show ?thesis by (simp add: nothing_answers_def)
qed

text \<open>
  In the module as it is, the verdict is that of the \<open>nc\<close> step alone: the socket loop
  and the name resolution fail on the name \<open>socket\<close> before they reach the network.
\<close>

lemma verdict_is_nc_step:
  "test_connection env addr = test_connection_nc env addr"
proof -
  have loop: "\<not> socket_loop webos_module_globals env addr ports" for ports
    by (induction ports) (simp_all add: socket_connect_def lookup_name_def webos_module_globals_def)
  have res: "resolve_host webos_module_globals env addr = Inl (NameError ''socket'')"
    by (simp add: resolve_host_def lookup_name_def webos_module_globals_def)
  obtain b where nc: "test_connection_nc env addr = Inr b"
    using test_connection_nc_total by blast
  with loop res show ?thesis
    by (cases b) (simp_all add: test_connection_def test_connection_in_def test_connection_body_def)
qed

text \<open>
  Claim C6, evaluated on the code. \<open>nc\<close> exits with 1 on every port and no port accepts a
  connection, but the address resolves to a host name: the third method of the chain has
  not failed. \<open>webos_discovery.py\<close> never imports \<open>socket\<close>, so line 120 raises
  \<open>NameError\<close> before \<open>gethostbyaddr\<close> is called, the clause \<open>except socket.herror\<close> raises
  it again, and the handler of line 129 returns \<open>False\<close>: the negative verdict is given
  though the methods are not exhausted. With \<open>socket\<close> bound in the module, the same
  function returns \<open>True\<close> on the same network. No exception leaves the function.
\<close>

theorem name_resolution_never_runs:
  "test_connection_nc only_name_resolves tv_addr = Inr False \<and>
   socket_loop webos_module_globals only_name_resolves tv_addr webos_ports = False \<and>
   gethostbyaddr only_name_resolves tv_addr = Inr ''lgwebostv'' \<and>
   resolve_host webos_module_globals only_name_resolves tv_addr = Inl (NameError ''socket'') \<and>
   test_connection only_name_resolves tv_addr = Inr False \<and>
   test_connection_in (''socket'' # webos_module_globals) only_name_resolves tv_addr = Inr True"
  by code_simp

text \<open>
  Claim C3, evaluated on the code. \<open>nc\<close> is not installed and port 3000 of the address
  accepts connections. \<open>webos_discovery.py\<close> never imports \<open>socket\<close>: the call of line 106
  raises \<open>NameError\<close> for every port, which line 114 catches; line 120 raises it again,
  the clause \<open>except socket.herror\<close> raises it once more, and the handler of line 129
  returns \<open>False\<close>. The connection to port 3000 is never tried. With \<open>socket\<close> bound in
  the module, the same function returns \<open>True\<close> on the same network.
\<close>

theorem socket_probe_never_runs:
  "test_connection_nc port_3000_open tv_addr = Inr False \<and>
   connect_ex port_3000_open tv_addr 3000 = Inr 0 \<and>
   socket_connect webos_module_globals port_3000_open tv_addr 3000 = Inl (NameError ''socket'') \<and>
   socket_loop webos_module_globals port_3000_open tv_addr webos_ports = False \<and>
   resolve_host webos_module_globals port_3000_open tv_addr = Inl (NameError ''socket'') \<and>
   test_connection port_3000_open tv_addr = Inr False \<and>
   test_connection_in (''socket'' # webos_module_globals) port_3000_open tv_addr = Inr True"
  by code_simp


section \<open>The factory\<close>

lemma get_discovery_cached:
  "tv_type \<in> set (map fst (discoveries st)) \<Longrightarrow>
     get_discovery load tv_type st = Inr (map_of (discoveries st) tv_type, st)"
  by (simp add: get_discovery_def)

lemma dict_set_keys: "fst ` set (dict_set d k v) = insert k (fst ` set d)"
  by (induction d k v rule: dict_set.induct) auto

lemma map_of_dict_set: "map_of (dict_set d k v) k = Some v"
  by (induction d k v rule: dict_set.induct) auto

lemma get_discovery_webos_again:
  assumes "get_discovery load ''webos'' st = Inr (r, st')"
  shows "r \<noteq> None \<and> get_discovery load ''webos'' st' = Inr (r, st')"
proof (cases "''webos'' \<in> set (map fst (discoveries st))")
  case True
  with assms have "st' = st" and "r = map_of (discoveries st) ''webos''"
    by (auto simp: get_discovery_cached)
  moreover from True have "map_of (discoveries st) ''webos'' \<noteq> None"
    by (metis map_of_eq_None_iff set_map)
  ultimately show ?thesis using True by (simp add: get_discovery_cached)
next
  case False
  obtain obj st1 where c: "construct ''WebOSDiscovery'' (import_webos_discovery st) = (obj, st1)"
    by (cases "construct ''WebOSDiscovery'' (import_webos_discovery st)")
  from False assms c have st': "st' = register ''webos'' obj st1"
    and r: "r = map_of (discoveries st') ''webos''"
    by (auto simp: get_discovery_def)
  from st' have keys: "''webos'' \<in> set (map fst (discoveries st'))"
    by (simp add: register_def dict_set_keys)
  from st' have m: "map_of (discoveries st') ''webos'' = Some obj"
    by (simp add: register_def map_of_dict_set)
  with r have "r = Some obj" by simp
  moreover from keys m have "get_discovery load ''webos'' st' = Inr (Some obj, st')"
    by (simp add: get_discovery_cached)
  ultimately show ?thesis by simp
qed

lemma get_discovery_unknown:
  assumes "tv_type \<notin> set (map fst (discoveries st))"
    and "tv_type \<noteq> ''webos''" and "tv_type \<noteq> ''tizen''" and "tv_type \<noteq> ''android''"
  shows "get_discovery load tv_type st = Inr (None, st)"
proof -
  from assms(1) have "map_of (discoveries st) tv_type = None"
    by (metis map_of_eq_None_iff set_map)
  with assms show ?thesis by (simp add: get_discovery_def)
qed

text \<open>
  Claim C7, evaluated on the code. In a process that has not imported
  \<open>webos_discovery\<close> yet, the first \<open>get_discovery('webos')\<close> constructs two
  \<open>WebOSDiscovery\<close> objects: the import of line 108 runs line 161 of the module, which
  constructs and registers the first, and line 109 constructs the second and registers
  it in place of the first. The second request returns the same object as the first
  request and constructs nothing.
\<close>

theorem webos_constructed_twice:
  "get_discovery load ''webos'' fresh_process = Inr (Some (webos_obj 1), after_first_request) \<and>
   constructed after_first_request = [webos_obj 0, webos_obj 1] \<and>
   length (constructed after_first_request) = 2 \<and>
   import_webos_discovery fresh_process =
     \<lparr> discoveries = [(''webos'', webos_obj 0)], sys_modules = [''webos_discovery''],
       constructed = [webos_obj 0] \<rparr> \<and>
   get_discovery load ''webos'' after_first_request = Inr (Some (webos_obj 1), after_first_request)"
  by (simp add: get_discovery_def fresh_process_def after_first_request_def webos_obj_def
      import_webos_discovery_def construct_def register_def Let_def)

end
